theory Spec2Isabelle
  imports Main
begin

section \<open>A hostname-routed reverse proxy: \<open>https-proxy-server.js\<close>\<close>

text \<open>
  The development follows the source file function by function: the routing store
  (\<open>loadConfig\<close>, \<open>saveConfig\<close>, \<open>addIssuer\<close>), the dispatcher (\<open>handleRequest\<close>),
  the administration interface (\<open>handleAdminRequest\<close>) and the discovery loop
  (\<open>discoverIssuer\<close>).

  Conventions of the model.
  \<^item> A JavaScript string is the list of its UTF-8 bytes. The source only compares
    strings, tests an ASCII prefix and splits at the ASCII colon, and these agree on
    UTF-8 bytes and on UTF-16 code units.
  \<^item> A JSON number is represented by the text that the language's number-to-string
    conversion gives for it (so \<open>0\<close> and \<open>-0\<close> coincide); only finite numbers
    are covered.
  \<^item> An object is the list of its own properties in property order.
  \<^item> \<open>JSON.parse\<close> and \<open>JSON.stringify\<close> are not re-implemented: the content of the
    configuration file and the body of a request are described by what \<open>JSON.parse\<close>
    makes of them, and the text written by \<open>JSON.stringify\<close> is described by the
    value that was serialised.
  \<^item> The configuration file, when it parses, is taken to parse to an object (the
    program itself only ever writes objects).
  \<^item> Every call of \<open>fs.writeFileSync\<close> has an outcome that the environment chooses;
    the functions take the outcomes of the writes they may perform as arguments.
\<close>

subsection \<open>Values\<close>

datatype js =
    JNull
  | JBool bool
  | JNum string
  | JStr string
  | JArr "js list"
  | JObj "(string \<times> js) list"

type_synonym obj = "(string \<times> js) list"

text \<open>The result of reading a property: \<open>undefined\<close>, a built-in function or object of
  the runtime (truthy, and without a property \<open>target\<close>), or a value.\<close>

datatype jsval = Undefined | Builtin | Val js

fun truthy :: "js \<Rightarrow> bool" where
  "truthy JNull = False"
| "truthy (JBool b) = b"
| "truthy (JNum s) = (s \<noteq> ''0'')"
| "truthy (JStr s) = (s \<noteq> [])"
| "truthy (JArr xs) = True"
| "truthy (JObj ps) = True"

fun truthy_val :: "jsval \<Rightarrow> bool" where
  "truthy_val Undefined = False"
| "truthy_val Builtin = True"
| "truthy_val (Val v) = truthy v"

text \<open>Conversion of a value to a property key (\<open>config[hostname]\<close> with a hostname taken
  from a parsed request body, which need not be a string). An array is the
  comma-separated list of its elements, where \<open>null\<close> elements give the empty string.\<close>

fun to_key :: "js \<Rightarrow> string"
  and join_keys :: "js list \<Rightarrow> string" where
  "to_key JNull = ''null''"
| "to_key (JBool b) = (if b then ''true'' else ''false'')"
| "to_key (JNum s) = s"
| "to_key (JStr s) = s"
| "to_key (JArr xs) = join_keys xs"
| "to_key (JObj ps) = ''[object Object]''"
| "join_keys [] = []"
| "join_keys [x] = (if x = JNull then [] else to_key x)"
| "join_keys (x # y # ys) = (if x = JNull then [] else to_key x) @ '','' @ join_keys (y # ys)"

subsection \<open>Property access on objects\<close>

text \<open>The names that every ordinary object inherits from \<open>Object.prototype\<close>.\<close>

definition Object_prototype_names :: "string list" where
  "Object_prototype_names =
    [''constructor'', ''__defineGetter__'', ''__defineSetter__'', ''hasOwnProperty'',
     ''__lookupGetter__'', ''__lookupSetter__'', ''isPrototypeOf'',
     ''propertyIsEnumerable'', ''toString'', ''valueOf'', ''__proto__'',
     ''toLocaleString'']"

definition inherited :: "string \<Rightarrow> jsval" where
  "inherited k = (if k \<in> set Object_prototype_names then Builtin else Undefined)"

text \<open>\<open>o[k]\<close> for an object with own properties \<open>own\<close>. The prototype is
  \<open>Object.prototype\<close> (\<open>None\<close>) or an object \<open>p\<close> that was installed by an assignment to
  \<open>__proto__\<close> and itself inherits from \<open>Object.prototype\<close>.\<close>

definition js_get :: "obj \<Rightarrow> obj option \<Rightarrow> string \<Rightarrow> jsval" where
  "js_get own proto k =
     (case map_of own k of
        Some v \<Rightarrow> Val v
      | None \<Rightarrow>
          (case proto of
             None \<Rightarrow> inherited k
           | Some p \<Rightarrow>
               (if k = ''__proto__'' then Val (JObj p)
                else (case map_of p k of Some v \<Rightarrow> Val v | None \<Rightarrow> inherited k))))"

text \<open>\<open>x.target\<close> for the result \<open>x\<close> of a truthy lookup: only an object can have it.\<close>

fun target_of :: "jsval \<Rightarrow> jsval" where
  "target_of (Val (JObj ps)) = js_get ps None ''target''"
| "target_of x = Undefined"

text \<open>Property order: array-index keys (canonical decimal numerals below \<open>2^32 - 1\<close>)
  come first, in ascending numeric order; all other keys follow in insertion order.\<close>

definition is_digit :: "char \<Rightarrow> bool" where
  "is_digit c = (c \<in> set ''0123456789'')"

definition dec_value :: "string \<Rightarrow> nat" where
  "dec_value s = foldl (\<lambda>n c. 10 * n + (of_char c - 48)) 0 s"

definition is_array_index :: "string \<Rightarrow> bool" where
  "is_array_index s =
     (s \<noteq> [] \<and> list_all is_digit s \<and> (s = ''0'' \<or> hd s \<noteq> CHR ''0'') \<and>
      dec_value s < 4294967295)"

fun insert_key :: "obj \<Rightarrow> string \<Rightarrow> js \<Rightarrow> obj" where
  "insert_key [] k v = [(k, v)]"
| "insert_key ((k', v') # ps) k v =
     (if is_array_index k \<and> (\<not> is_array_index k' \<or> dec_value k < dec_value k')
      then (k, v) # (k', v') # ps
      else (k', v') # insert_key ps k v)"

fun replace_key :: "obj \<Rightarrow> string \<Rightarrow> js \<Rightarrow> obj" where
  "replace_key [] k v = []"
| "replace_key ((k', v') # ps) k v =
     (if k' = k then (k, v) # ps else (k', v') # replace_key ps k v)"

text \<open>An in-memory object: its own properties and its prototype.\<close>

record heap_obj =
  own :: obj
  proto :: "obj option"

text \<open>\<open>o[k] = {target, name}\<close>. An own property is overwritten in place. Otherwise the
  key \<open>__proto__\<close> reaches the setter inherited from \<open>Object.prototype\<close>, which replaces
  the prototype and creates no own property; any other key becomes a new own property.\<close>

definition js_set :: "heap_obj \<Rightarrow> string \<Rightarrow> obj \<Rightarrow> heap_obj" where
  "js_set ob k entry =
     (if map_of (own ob) k \<noteq> None then ob\<lparr>own := replace_key (own ob) k (JObj entry)\<rparr>
      else if k = ''__proto__'' then ob\<lparr>proto := Some entry\<rparr>
      else ob\<lparr>own := insert_key (own ob) k (JObj entry)\<rparr>)"

subsection \<open>String literals of the source (UTF-8)\<close>

definition name_fido :: string where
  "name_fido =
    [CHR 0xE5, CHR 0x85, CHR 0xA7, CHR 0xE6, CHR 0x94, CHR 0xBF, CHR 0xE9, CHR 0x83,
     CHR 0xA8, CHR 0xE8, CHR 0x87, CHR 0xAA, CHR 0xE7, CHR 0x84, CHR 0xB6, CHR 0xE4,
     CHR 0xBA, CHR 0xBA, CHR 0xE6, CHR 0x86, CHR 0x91, CHR 0xE8, CHR 0xAD, CHR 0x89]"

definition name_land :: string where
  "name_land =
    [CHR 0xE5, CHR 0x85, CHR 0xA7, CHR 0xE6, CHR 0x94, CHR 0xBF, CHR 0xE9, CHR 0x83,
     CHR 0xA8, CHR 0xE6, CHR 0x88, CHR 0xBF, CHR 0xE7, CHR 0x94, CHR 0xA2, CHR 0xE6,
     CHR 0x86, CHR 0x91, CHR 0xE8, CHR 0xAD, CHR 0x89]"

definition name_zuvi :: string where
  "name_zuvi =
    [CHR 0xE7, CHR 0xA7, CHR 0x9F, CHR 0xE6, CHR 0x88, CHR 0xBF, CHR 0x20, CHR 0x44,
     CHR 0x61, CHR 0x70, CHR 0x70]"

definition label_pre :: string where
  "label_pre =
    [CHR 0xE8, CHR 0x87, CHR 0xAA, CHR 0xE5, CHR 0x8B, CHR 0x95, CHR 0xE7, CHR 0x99,
     CHR 0xBC, CHR 0xE7, CHR 0x8F, CHR 0xBE, CHR 0xE7, CHR 0x9A, CHR 0x84, CHR 0xE7,
     CHR 0x99, CHR 0xBC, CHR 0xE8, CHR 0xA1, CHR 0x8C, CHR 0xE8, CHR 0x80, CHR 0x85,
     CHR 0x20, CHR 0x28]"

definition err_unconfigured :: string where
  "err_unconfigured =
    [CHR 0xE6, CHR 0x9C, CHR 0xAA, CHR 0xE9, CHR 0x85, CHR 0x8D, CHR 0xE7, CHR 0xBD,
     CHR 0xAE, CHR 0xE7, CHR 0x9A, CHR 0x84, CHR 0xE7, CHR 0x99, CHR 0xBC, CHR 0xE8,
     CHR 0xA1, CHR 0x8C, CHR 0xE8, CHR 0x80, CHR 0x85]"

definition msg_pre :: string where
  "msg_pre =
    [CHR 0xE6, CHR 0x89, CHR 0xBE, CHR 0xE4, CHR 0xB8, CHR 0x8D, CHR 0xE5, CHR 0x88,
     CHR 0xB0, CHR 0x20]"

definition msg_post :: string where
  "msg_post =
    [CHR 0x20, CHR 0xE7, CHR 0x9A, CHR 0x84, CHR 0xE9, CHR 0x85, CHR 0x8D, CHR 0xE7,
     CHR 0xBD, CHR 0xAE, CHR 0xEF, CHR 0xBC, CHR 0x8C, CHR 0xE8, CHR 0xAB, CHR 0x8B,
     CHR 0xE5, CHR 0x9C, CHR 0xA8, CHR 0xE4, CHR 0xBB, CHR 0xA3, CHR 0xE7, CHR 0x90,
     CHR 0x86, CHR 0xE7, CHR 0xAE, CHR 0xA1, CHR 0xE7, CHR 0x90, CHR 0x86, CHR 0xE9,
     CHR 0xA0, CHR 0x81, CHR 0xE9, CHR 0x9D, CHR 0xA2, CHR 0xE6, CHR 0xB7, CHR 0xBB,
     CHR 0xE5, CHR 0x8A, CHR 0xA0, CHR 0xE6, CHR 0xAD, CHR 0xA4, CHR 0xE7, CHR 0x99,
     CHR 0xBC, CHR 0xE8, CHR 0xA1, CHR 0x8C, CHR 0xE8, CHR 0x80, CHR 0x85, CHR 0xE3,
     CHR 0x80, CHR 0x82]"

definition err_missing :: string where
  "err_missing =
    [CHR 0xE7, CHR 0xBC, CHR 0xBA, CHR 0xE5, CHR 0xB0, CHR 0x91, CHR 0xE5, CHR 0xBF,
     CHR 0x85, CHR 0xE8, CHR 0xA6, CHR 0x81, CHR 0xE5, CHR 0x8F, CHR 0x83, CHR 0xE6,
     CHR 0x95, CHR 0xB8]"

definition msg_added :: string where
  "msg_added =
    [CHR 0xE7, CHR 0x99, CHR 0xBC, CHR 0xE8, CHR 0xA1, CHR 0x8C, CHR 0xE8, CHR 0x80,
     CHR 0x85, CHR 0xE5, CHR 0xB7, CHR 0xB2, CHR 0xE6, CHR 0xB7, CHR 0xBB, CHR 0xE5,
     CHR 0x8A, CHR 0xA0]"

definition err_save :: string where
  "err_save =
    [CHR 0xE4, CHR 0xBF, CHR 0x9D, CHR 0xE5, CHR 0xAD, CHR 0x98, CHR 0xE9, CHR 0x85,
     CHR 0x8D, CHR 0xE7, CHR 0xBD, CHR 0xAE, CHR 0xE5, CHR 0xA4, CHR 0xB1, CHR 0xE6,
     CHR 0x95, CHR 0x97]"

definition err_format :: string where
  "err_format =
    [CHR 0xE8, CHR 0xAB, CHR 0x8B, CHR 0xE6, CHR 0xB1, CHR 0x82, CHR 0xE6, CHR 0xA0,
     CHR 0xBC, CHR 0xE5, CHR 0xBC, CHR 0x8F, CHR 0xE9, CHR 0x8C, CHR 0xAF, CHR 0xE8,
     CHR 0xAA, CHR 0xA4]"

definition err_endpoint :: string where
  "err_endpoint =
    [CHR 0xE6, CHR 0x9C, CHR 0xAA, CHR 0xE6, CHR 0x89, CHR 0xBE, CHR 0xE5, CHR 0x88,
     CHR 0xB0, CHR 0xE8, CHR 0xAB, CHR 0x8B, CHR 0xE6, CHR 0xB1, CHR 0x82, CHR 0xE7,
     CHR 0x9A, CHR 0x84, CHR 0xE7, CHR 0xAE, CHR 0xA1, CHR 0xE7, CHR 0x90, CHR 0x86,
     CHR 0xE7, CHR 0xAB, CHR 0xAF, CHR 0xE9, CHR 0xBB, CHR 0x9E]"

definition err_notfound :: string where
  "err_notfound =
    [CHR 0xE6, CHR 0x9C, CHR 0xAA, CHR 0xE6, CHR 0x89, CHR 0xBE, CHR 0xE5, CHR 0x88,
     CHR 0xB0, CHR 0xE7, CHR 0x99, CHR 0xBC, CHR 0xE8, CHR 0xA1, CHR 0x8C, CHR 0xE8,
     CHR 0x80, CHR 0x85]"

definition dmsg_pre :: string where
  "dmsg_pre =
    [CHR 0xE7, CHR 0x84, CHR 0xA1, CHR 0xE6, CHR 0xB3, CHR 0x95, CHR 0xE8, CHR 0x87,
     CHR 0xAA, CHR 0xE5, CHR 0x8B, CHR 0x95, CHR 0xE7, CHR 0x99, CHR 0xBC, CHR 0xE7,
     CHR 0x8F, CHR 0xBE, CHR 0x20]"

definition dmsg_post :: string where
  "dmsg_post =
    [CHR 0x20, CHR 0xE7, CHR 0x9A, CHR 0x84, CHR 0xE6, CHR 0x9C, CHR 0x8D, CHR 0xE5,
     CHR 0x8B, CHR 0x99, CHR 0xE3, CHR 0x80, CHR 0x82, CHR 0xE8, CHR 0xAB, CHR 0x8B,
     CHR 0xE7, CHR 0xA2, CHR 0xBA, CHR 0xE4, CHR 0xBF, CHR 0x9D, CHR 0xE6, CHR 0x9C,
     CHR 0x8D, CHR 0xE5, CHR 0x8B, CHR 0x99, CHR 0xE9, CHR 0x81, CHR 0x8B, CHR 0xE8,
     CHR 0xA1, CHR 0x8C, CHR 0xE4, CHR 0xB8, CHR 0xA6, CHR 0xE5, CHR 0x9C, CHR 0xA8,
     CHR 0xE4, CHR 0xBB, CHR 0xA3, CHR 0xE7, CHR 0x90, CHR 0x86, CHR 0xE7, CHR 0xAE,
     CHR 0xA1, CHR 0xE7, CHR 0x90, CHR 0x86, CHR 0xE9, CHR 0xA0, CHR 0x81, CHR 0xE9,
     CHR 0x9D, CHR 0xA2, CHR 0xE6, CHR 0xB7, CHR 0xBB, CHR 0xE5, CHR 0x8A, CHR 0xA0,
     CHR 0xE6, CHR 0xAD, CHR 0xA4, CHR 0xE7, CHR 0x99, CHR 0xBC, CHR 0xE8, CHR 0xA1,
     CHR 0x8C, CHR 0xE8, CHR 0x80, CHR 0x85, CHR 0xE3, CHR 0x80, CHR 0x82]"

subsection \<open>The routing store\<close>

text \<open>\<open>DEFAULT_ISSUERS\<close>, as the source writes it.\<close>

definition DEFAULT_ISSUERS :: obj where
  "DEFAULT_ISSUERS =
    [(''fido.moi.gov.tw'',
        JObj [(''target'', JStr ''https://localhost:5000''), (''name'', JStr name_fido)]),
     (''land.moi.gov.tw'',
        JObj [(''target'', JStr ''https://localhost:5001''), (''name'', JStr name_land)]),
     (''zuvi.io'',
        JObj [(''target'', JStr ''https://localhost:5002''), (''name'', JStr name_zuvi)])]"

text \<open>
  The file at \<open>CONFIG_PATH\<close>:
  \<^item> \<open>Absent\<close>: \<open>fs.existsSync\<close> is false;
  \<^item> \<open>Saved ps\<close>: the file holds exactly the text \<open>JSON.stringify(c, null, 2)\<close> of an
    object \<open>c\<close> with own properties \<open>ps\<close>;
  \<^item> \<open>Other r\<close>: the file exists with other content; reading and parsing it gives the
    object \<open>ps\<close> when \<open>r = Some ps\<close> and throws when \<open>r = None\<close>;
  \<^item> \<open>Truncated\<close>: the file holds a proper prefix of a serialised object, which
    \<open>JSON.parse\<close> rejects.
\<close>

datatype storage = Absent | Saved obj | Other "obj option" | Truncated

text \<open>
  The outcome of one \<open>fs.writeFileSync(CONFIG_PATH, text)\<close>, which opens the file for
  writing (truncating it) and then writes the text:
  \<^item> \<open>Done\<close>: the call returns and the file holds the text;
  \<^item> \<open>Refused\<close>: the call throws before the file is touched;
  \<^item> \<open>Cut_short\<close>: the call throws after the truncation, part of the text written.
\<close>

datatype write_result = Done | Refused | Cut_short

text \<open>The state: the file, and the object \<open>DEFAULT_ISSUERS\<close> of the running process
  (a module-level object that \<open>loadConfig\<close> returns by reference).\<close>

record world =
  disk :: storage
  defaults :: heap_obj

definition initial_defaults :: heap_obj where
  "initial_defaults = \<lparr>own = DEFAULT_ISSUERS, proto = None\<rparr>"

text \<open>What \<open>loadConfig\<close> returns: a fresh object made by \<open>JSON.parse\<close>, or
  \<open>DEFAULT_ISSUERS\<close> itself.\<close>

datatype config = Parsed heap_obj | Default_ref

definition deref :: "world \<Rightarrow> config \<Rightarrow> heap_obj" where
  "deref w c = (case c of Parsed ob \<Rightarrow> ob | Default_ref \<Rightarrow> defaults w)"

definition writeFileSync :: "write_result \<Rightarrow> obj \<Rightarrow> world \<Rightarrow> bool \<times> world" where
  "writeFileSync r ps w =
     (case r of
        Done \<Rightarrow> (True, w\<lparr>disk := Saved ps\<rparr>)
      | Refused \<Rightarrow> (False, w)
      | Cut_short \<Rightarrow> (False, w\<lparr>disk := Truncated\<rparr>))"

text \<open>\<open>JSON.parse(fs.readFileSync(CONFIG_PATH, 'utf8'))\<close> under \<open>fs.existsSync\<close>:
  \<open>None\<close> when the file is absent or an exception is caught.\<close>

definition read_config :: "storage \<Rightarrow> obj option" where
  "read_config f =
     (case f of
        Absent \<Rightarrow> None
      | Saved ps \<Rightarrow> Some ps
      | Other r \<Rightarrow> r
      | Truncated \<Rightarrow> None)"

definition loadConfig :: "write_result \<Rightarrow> world \<Rightarrow> config \<times> world" where
  "loadConfig r w =
     (case read_config (disk w) of
        Some ps \<Rightarrow> (Parsed \<lparr>own = ps, proto = None\<rparr>, w)
      | None \<Rightarrow> (Default_ref, snd (writeFileSync r (own (defaults w)) w)))"

definition saveConfig :: "write_result \<Rightarrow> config \<Rightarrow> world \<Rightarrow> bool \<times> world" where
  "saveConfig r c w = writeFileSync r (own (deref w c)) w"

text \<open>\<open>config[hostname] = { target, name }\<close> on what \<open>loadConfig\<close> returned.\<close>

definition assign_entry :: "config \<Rightarrow> string \<Rightarrow> obj \<Rightarrow> world \<Rightarrow> config \<times> world" where
  "assign_entry c k entry w =
     (case c of
        Parsed ob \<Rightarrow> (Parsed (js_set ob k entry), w)
      | Default_ref \<Rightarrow> (Default_ref, w\<lparr>defaults := js_set (defaults w) k entry\<rparr>))"

definition addIssuer ::
  "write_result \<Rightarrow> write_result \<Rightarrow> js \<Rightarrow> js \<Rightarrow> js \<Rightarrow> world \<Rightarrow> bool \<times> world" where
  "addIssuer r1 r2 hostname target name w =
     (let (config, w1) = loadConfig r1 w;
          (config', w2) =
             assign_entry config (to_key hostname) [(''target'', target), (''name'', name)] w1
      in saveConfig r2 config' w2)"


subsection \<open>Requests and what the server does with them\<close>

text \<open>The request body, by what \<open>JSON.parse\<close> makes of it.\<close>

datatype payload = Json_text js | Not_json string

record request =
  host :: "string option"
  url :: string
  http_method :: string
  body :: payload

datatype content = Json_out js | Html_console

text \<open>
  What a handler does with a request: it answers (status, \<open>Content-Type\<close>, body), it
  hands the request to \<open>proxy.web(req, res, {target})\<close>, or it throws.
\<close>

datatype outcome =
    Respond nat "string option" content
  | Proxy_web jsval request
  | Uncaught_TypeError

definition starts_with :: "string \<Rightarrow> string \<Rightarrow> bool" where
  "starts_with s p = (take (length p) s = p)"

definition admin_url :: string where
  "admin_url = ''https://localhost:8080/proxy-admin''"

definition well_known :: string where
  "well_known = ''/.well-known/openid-credential-issuer''"

definition json_ct :: "string option" where
  "json_ct = Some ''application/json''"

subsection \<open>The administration interface\<close>

text \<open>\<open>const { hostname, target, name } = v\<close> reads three properties of a parsed body.
  None of the three names is inherited from a prototype, so a property is the own
  property of an object and \<open>undefined\<close> (\<open>None\<close>) for every other value; \<open>null\<close>
  cannot be destructured and is handled by the caller.\<close>

fun field :: "js \<Rightarrow> string \<Rightarrow> js option" where
  "field (JObj ps) k = map_of ps k"
| "field v k = None"

definition bad_request :: "string \<Rightarrow> outcome" where
  "bad_request msg = Respond 400 json_ct (Json_out (JObj [(''error'', JStr msg)]))"

text \<open>The body of the \<open>req.on('end', ...)\<close> callback of \<open>POST /proxy-admin/add\<close>. An
  exception of \<open>JSON.parse\<close> or of the destructuring is caught and answered by 400.\<close>

definition add_request ::
  "write_result \<Rightarrow> write_result \<Rightarrow> payload \<Rightarrow> world \<Rightarrow> outcome \<times> world" where
  "add_request r1 r2 b w =
     (case b of
        Not_json s \<Rightarrow> (bad_request err_format, w)
      | Json_text v \<Rightarrow>
          (if v = JNull then (bad_request err_format, w)
           else
             (case (field v ''hostname'', field v ''target'') of
                (Some hostname, Some target) \<Rightarrow>
                  (if \<not> truthy hostname then (bad_request err_missing, w)
                   else if \<not> truthy target then (bad_request err_missing, w)
                   else
                     (let name = (case field v ''name'' of
                                    Some n \<Rightarrow> if truthy n then n else hostname
                                  | None \<Rightarrow> hostname);
                          (ok, w') = addIssuer r1 r2 hostname target name w
                      in if ok
                         then (Respond 200 json_ct
                                 (Json_out (JObj [(''success'', JBool True),
                                                  (''message'', JStr msg_added)])), w')
                         else (Respond 500 json_ct
                                 (Json_out (JObj [(''error'', JStr err_save)])), w')))
              | _ \<Rightarrow> (bad_request err_missing, w))))"

definition handleAdminRequest ::
  "write_result \<Rightarrow> write_result \<Rightarrow> request \<Rightarrow> world \<Rightarrow> outcome \<times> world" where
  "handleAdminRequest r1 r2 req w =
     (if url req = ''/proxy-admin/list'' \<and> http_method req = ''GET''
      then (let (config, w') = loadConfig r1 w
            in (Respond 200 json_ct (Json_out (JObj (own (deref w' config)))), w'))
      else if url req = ''/proxy-admin/add'' \<and> http_method req = ''POST''
      then add_request r1 r2 (body req) w
      else if url req = ''/proxy-admin'' \<and> http_method req = ''GET''
      then (Respond 200 (Some ''text/html'') Html_console, w)
      else (Respond 404 json_ct (Json_out (JObj [(''error'', JStr err_endpoint)])), w))"

subsection \<open>Discovery\<close>

datatype probe_result = Status nat | Probe_error | Probe_timeout

definition ports :: "nat list" where
  "ports = [5000, 5001, 5002, 5003, 5004, 5005, 8080, 8081, 8082, 8000, 8001]"

fun show_nat :: "nat \<Rightarrow> string" where
  "show_nat n =
     (if n < 10 then [char_of (48 + n)]
      else show_nat (n div 10) @ [char_of (48 + n mod 10)])"

definition target_for :: "nat \<Rightarrow> string" where
  "target_for port = ''https://localhost:'' @ show_nat port"

definition discovered_label :: "string \<Rightarrow> string" where
  "discovered_label hostname = label_pre @ hostname @ '')''"

definition discovery_failed :: "string \<Rightarrow> outcome" where
  "discovery_failed hostname =
     Respond 404 json_ct
       (Json_out (JObj [(''error'', JStr err_notfound),
                        (''message'', JStr (dmsg_pre @ hostname @ dmsg_post)),
                        (''admin_url'', JStr admin_url)]))"

text \<open>
  The \<open>for (const port of ports)\<close> loop. \<open>probe port\<close> is what the GET to
  \<open>https://localhost:port/.well-known/openid-credential-issuer\<close> comes to; each probe is
  awaited before the next one starts. The second component of the result lists the
  ports probed, in order.
\<close>

fun probe_ports ::
  "write_result \<Rightarrow> write_result \<Rightarrow> (nat \<Rightarrow> probe_result) \<Rightarrow> string \<Rightarrow> request \<Rightarrow>
     nat list \<Rightarrow> world \<Rightarrow> outcome \<times> nat list \<times> world" where
  "probe_ports r1 r2 probe hostname req [] w = (discovery_failed hostname, [], w)"
| "probe_ports r1 r2 probe hostname req (port # rest) w =
     (if probe port = Status 200
      then (let (ok, w') = addIssuer r1 r2 (JStr hostname) (JStr (target_for port))
                             (JStr (discovered_label hostname)) w
            in (Proxy_web (Val (JStr (target_for port))) req, [port], w'))
      else (let (out, probed, w') = probe_ports r1 r2 probe hostname req rest w
            in (out, port # probed, w')))"

definition discoverIssuer ::
  "write_result \<Rightarrow> write_result \<Rightarrow> (nat \<Rightarrow> probe_result) \<Rightarrow> string \<Rightarrow> request \<Rightarrow>
     world \<Rightarrow> outcome \<times> nat list \<times> world" where
  "discoverIssuer r1 r2 probe hostname req w = probe_ports r1 r2 probe hostname req ports w"

subsection \<open>The dispatcher\<close>

text \<open>\<open>s.split(':')[0]\<close>: the part of \<open>s\<close> before its first colon.\<close>

definition before_colon :: "string \<Rightarrow> string" where
  "before_colon s = takeWhile (\<lambda>c. c \<noteq> CHR '':'') s"

definition not_configured :: "string \<Rightarrow> outcome" where
  "not_configured hostname =
     Respond 404 json_ct
       (Json_out (JObj [(''error'', JStr err_unconfigured),
                        (''message'', JStr (msg_pre @ hostname @ msg_post)),
                        (''admin_url'', JStr admin_url)]))"

definition handleRequest ::
  "write_result \<Rightarrow> write_result \<Rightarrow> write_result \<Rightarrow> (nat \<Rightarrow> probe_result) \<Rightarrow>
     request \<Rightarrow> world \<Rightarrow> outcome \<times> world" where
  "handleRequest r0 r1 r2 probe req w =
     (case host req of
        None \<Rightarrow> (Uncaught_TypeError, w)
      | Some h \<Rightarrow>
          (let hostname = before_colon h;
               (config, w0) = loadConfig r0 w
           in if hostname = ''localhost'' \<and> starts_with (url req) ''/proxy-admin''
              then handleAdminRequest r1 r2 req w0
              else (let e = js_get (own (deref w0 config)) (proto (deref w0 config)) hostname
                    in if truthy_val e then (Proxy_web (target_of e) req, w0)
                       else if url req = well_known
                       then (let (out, probed, w') = discoverIssuer r1 r2 probe hostname req w0
                             in (out, w'))
                       else (not_configured hostname, w0))))"



section \<open>Properties\<close>

subsection \<open>Loading and saving the configuration\<close>

lemma read_config_None_iff:
  "read_config f = None \<longleftrightarrow> f = Absent \<or> f = Other None \<or> f = Truncated"
  by (cases f) (simp_all add: read_config_def)



text \<open>
  Claim C4, as amended. \<open>saveConfig\<close> overwrites the configuration file in place with one
  \<open>fs.writeFileSync\<close>; there is no temporary file and no rename. It returns \<open>true\<close>
  exactly when the write completes, and then the file holds the whole serialisation of
  the table. When the write throws, \<open>saveConfig\<close> returns \<open>false\<close> and the file is
  either as it was or truncated. The in-memory defaults are not touched.
\<close>

theorem saveConfig_direct_write:
  "fst (saveConfig r c w) = (r = Done) \<and>
   defaults (snd (saveConfig r c w)) = defaults w \<and>
   disk (snd (saveConfig r c w)) =
     (case r of Done \<Rightarrow> Saved (own (deref w c)) | Refused \<Rightarrow> disk w | Cut_short \<Rightarrow> Truncated)"
  by (cases r) (simp_all add: saveConfig_def writeFileSync_def)

text \<open>
  The claim as the specification states it (every observer sees the whole old file or
  the whole new file) fails: a write that is interrupted after the truncation leaves a
  file that is neither.
\<close>

theorem saveConfig_not_atomic:
  "disk (snd (saveConfig Cut_short (Parsed \<lparr>own = DEFAULT_ISSUERS, proto = None\<rparr>)
                \<lparr>disk = Saved [], defaults = initial_defaults\<rparr>)) = Truncated \<and>
   Truncated \<noteq> Saved [] \<and> Truncated \<noteq> Saved DEFAULT_ISSUERS"
  by (simp add: saveConfig_def writeFileSync_def)

text \<open>
  Claim C9. On a file that \<open>saveConfig\<close> wrote, saving what \<open>loadConfig\<close> returns writes
  the same text again: the state after \<open>saveConfig(loadConfig())\<close> is the state before.
  And every table survives a completed save followed by a load: the loaded object has
  exactly the own properties of the table that was saved.
\<close>

theorem save_load_roundtrip:
  "(disk w = Saved ps \<longrightarrow>
      saveConfig Done (fst (loadConfig r w)) (snd (loadConfig r w)) = (True, w)) \<and>
   loadConfig r (snd (saveConfig Done c w)) =
     (Parsed \<lparr>own = own (deref w c), proto = None\<rparr>, snd (saveConfig Done c w))"
  by (simp add: saveConfig_def writeFileSync_def loadConfig_def read_config_def deref_def)

theorem save_load_roundtrip_witness:
  "saveConfig Done
     (fst (loadConfig Refused \<lparr>disk = Saved DEFAULT_ISSUERS, defaults = initial_defaults\<rparr>))
     (snd (loadConfig Refused \<lparr>disk = Saved DEFAULT_ISSUERS, defaults = initial_defaults\<rparr>)) =
     (True, \<lparr>disk = Saved DEFAULT_ISSUERS, defaults = initial_defaults\<rparr>)"
  using save_load_roundtrip [of "\<lparr>disk = Saved DEFAULT_ISSUERS, defaults = initial_defaults\<rparr>"
      DEFAULT_ISSUERS Refused]
  by simp

subsection \<open>The dispatcher\<close>


lemma before_colon_id: "CHR '':'' \<notin> set h \<Longrightarrow> before_colon h = h"
  unfolding before_colon_def by (induction h) auto

lemma before_colon_port:
  "CHR '':'' \<notin> set h \<Longrightarrow> before_colon (h @ CHR '':'' # port) = h"
  unfolding before_colon_def by (induction h) auto









text \<open>
  Claim C1, as amended. Let \<open>h\<close> be a hostname (without colon) whose entry in the table
  that \<open>loadConfig\<close> returns is truthy. A request whose \<open>Host\<close> header is \<open>h\<close>, or \<open>h\<close>
  followed by a colon and a port, is handed to \<open>proxy.web\<close> with the target
  \<open>table[h].target\<close> and with the request itself, so method and body are the original
  ones, unless \<open>h\<close> is \<open>localhost\<close> and the path starts with \<open>/proxy-admin\<close>.
\<close>

theorem dispatch_hit:
  assumes "host req = Some hv"
    and "hv = h \<or> hv = h @ CHR '':'' # port"
    and "CHR '':'' \<notin> set h"
    and "loadConfig r0 w = (config, w0)"
    and "map_of (own (deref w0 config)) h = Some e"
    and "truthy e"
    and "\<not> (h = ''localhost'' \<and> starts_with (url req) ''/proxy-admin'')"
  shows "handleRequest r0 r1 r2 probe req w = (Proxy_web (target_of (Val e)) req, w0)"
proof -
  have "before_colon hv = h"
    using assms(2,3) by (auto simp: before_colon_id before_colon_port)
  then show ?thesis
    using assms(1,4,5,6,7) by (auto simp: handleRequest_def js_get_def)
qed

theorem dispatch_hit_witness:
  "handleRequest Done Done Done (\<lambda>p. Probe_error)
     \<lparr>host = Some ''land.moi.gov.tw:8443'', url = ''/credential'', http_method = ''POST'',
      body = Json_text (JObj [])\<rparr>
     \<lparr>disk = Saved DEFAULT_ISSUERS, defaults = initial_defaults\<rparr> =
   (Proxy_web (Val (JStr ''https://localhost:5001''))
      \<lparr>host = Some ''land.moi.gov.tw:8443'', url = ''/credential'', http_method = ''POST'',
       body = Json_text (JObj [])\<rparr>,
    \<lparr>disk = Saved DEFAULT_ISSUERS, defaults = initial_defaults\<rparr>)"
  using dispatch_hit [of
      "\<lparr>host = Some ''land.moi.gov.tw:8443'', url = ''/credential'', http_method = ''POST'',
        body = Json_text (JObj [])\<rparr>"
      "''land.moi.gov.tw:8443''" "''land.moi.gov.tw''" "''8443''" Done
      "\<lparr>disk = Saved DEFAULT_ISSUERS, defaults = initial_defaults\<rparr>"
      "Parsed \<lparr>own = DEFAULT_ISSUERS, proto = None\<rparr>"
      "\<lparr>disk = Saved DEFAULT_ISSUERS, defaults = initial_defaults\<rparr>"
      "JObj [(''target'', JStr ''https://localhost:5001''), (''name'', JStr name_land)]"
      Done Done "\<lambda>p. Probe_error"]
  by (simp add: loadConfig_def read_config_def deref_def DEFAULT_ISSUERS_def js_get_def
      starts_with_def)

text \<open>
  The claim as the specification states it fails for the hostname \<open>localhost\<close>: with an
  entry for \<open>localhost\<close> in the table, a request for \<open>/proxy-admin/list\<close> is answered by
  the administration interface and not forwarded.
\<close>

theorem localhost_admin_not_forwarded:
  "map_of [(''localhost'', JObj [(''target'', JStr ''https://localhost:5000''),
                                 (''name'', JStr ''local'')])] ''localhost'' =
     Some (JObj [(''target'', JStr ''https://localhost:5000''), (''name'', JStr ''local'')]) \<and>
   handleRequest Done Done Done (\<lambda>p. Probe_error)
     \<lparr>host = Some ''localhost'', url = ''/proxy-admin/list'', http_method = ''GET'',
      body = Not_json []\<rparr>
     \<lparr>disk = Saved [(''localhost'', JObj [(''target'', JStr ''https://localhost:5000''),
                                          (''name'', JStr ''local'')])],
      defaults = initial_defaults\<rparr> =
   (Respond 200 (Some ''application/json'')
      (Json_out (JObj [(''localhost'', JObj [(''target'', JStr ''https://localhost:5000''),
                                             (''name'', JStr ''local'')])])),
    \<lparr>disk = Saved [(''localhost'', JObj [(''target'', JStr ''https://localhost:5000''),
                                         (''name'', JStr ''local'')])],
      defaults = initial_defaults\<rparr>)"
  by (simp add: handleRequest_def before_colon_def loadConfig_def read_config_def deref_def
      starts_with_def handleAdminRequest_def json_ct_def Let_def)

subsection \<open>Adding an issuer\<close>

lemma map_of_insert_key:
  "map_of ps k = None \<Longrightarrow> map_of (insert_key ps k v) = (map_of ps)(k \<mapsto> v)"
  by (induction ps) (auto split: if_splits)

lemma map_of_replace_key:
  "map_of ps k \<noteq> None \<Longrightarrow> map_of (replace_key ps k v) = (map_of ps)(k \<mapsto> v)"
  by (induction ps) (auto split: if_splits)

lemma replace_key_same: "map_of ps k = Some v \<Longrightarrow> replace_key ps k v = ps"
  by (induction ps) (auto split: if_splits)

lemma map_of_js_set:
  "k \<noteq> ''__proto__'' \<or> map_of (own ob) k \<noteq> None \<Longrightarrow>
     map_of (own (js_set ob k e)) = (map_of (own ob))(k \<mapsto> JObj e)"
  by (auto simp: js_set_def map_of_insert_key map_of_replace_key)

lemma own_js_set_again:
  "own (js_set \<lparr>own = own (js_set ob k e), proto = p\<rparr> k e) = own (js_set ob k e)"
proof (cases "k \<noteq> ''__proto__'' \<or> map_of (own ob) k \<noteq> None")
  case True
  then have m: "map_of (own (js_set ob k e)) k = Some (JObj e)"
    by (simp add: map_of_js_set)
  then show ?thesis by (simp add: js_set_def replace_key_same)
next
  case False
  then show ?thesis by (simp add: js_set_def)
qed


text \<open>
  Claim C8. \<open>addIssuer\<close> is idempotent: after an \<open>addIssuer\<close> that returned \<open>true\<close>, the
  same call again leaves the whole state, the configuration file and the in-memory
  defaults, exactly as the first call left it, provided the second write is not
  interrupted after truncating the file; it returns \<open>true\<close> when its write completes.
\<close>

theorem addIssuer_idempotent:
  assumes "addIssuer r1 r2 hostname target name w = (True, w1)"
    and "r4 \<noteq> Cut_short"
  shows "addIssuer r3 r4 hostname target name w1 = (r4 = Done, w1)"
proof -
  let ?k = "to_key hostname"
  let ?e = "[(''target'', target), (''name'', name)]"
  have r2: "r2 = Done"
    using assms(1)
    by (cases r2) (auto simp: addIssuer_def saveConfig_def writeFileSync_def split_beta Let_def)
  obtain ob where w1: "disk w1 = Saved (own (js_set ob ?k ?e))"
    using assms(1) unfolding r2
    by (cases "read_config (disk w)")
       (auto simp: addIssuer_def saveConfig_def writeFileSync_def loadConfig_def
          assign_entry_def deref_def Let_def split_beta)
  show ?thesis
    using w1 assms(2)
    by (cases r4)
       (simp_all add: addIssuer_def saveConfig_def writeFileSync_def loadConfig_def
          read_config_def assign_entry_def deref_def Let_def own_js_set_again)
qed


theorem addIssuer_idempotent_witness:
  "addIssuer Done Done (JStr ''new.example'') (JStr ''https://localhost:6000'') (JStr ''new'')
     (snd (addIssuer Done Done (JStr ''new.example'') (JStr ''https://localhost:6000'')
             (JStr ''new'') \<lparr>disk = Saved DEFAULT_ISSUERS, defaults = initial_defaults\<rparr>)) =
   (True, snd (addIssuer Done Done (JStr ''new.example'') (JStr ''https://localhost:6000'')
             (JStr ''new'') \<lparr>disk = Saved DEFAULT_ISSUERS, defaults = initial_defaults\<rparr>))"
proof -
  have "fst (addIssuer Done Done (JStr ''new.example'') (JStr ''https://localhost:6000'')
             (JStr ''new'') \<lparr>disk = Saved DEFAULT_ISSUERS, defaults = initial_defaults\<rparr>)"
    by (simp add: addIssuer_def saveConfig_def writeFileSync_def split_beta Let_def)
  then have "addIssuer Done Done (JStr ''new.example'') (JStr ''https://localhost:6000'')
             (JStr ''new'') \<lparr>disk = Saved DEFAULT_ISSUERS, defaults = initial_defaults\<rparr> =
     (True, snd (addIssuer Done Done (JStr ''new.example'') (JStr ''https://localhost:6000'')
             (JStr ''new'') \<lparr>disk = Saved DEFAULT_ISSUERS, defaults = initial_defaults\<rparr>))"
    by (simp add: prod_eq_iff)
  from addIssuer_idempotent [OF this, of Done Done] show ?thesis by simp
qed

subsection \<open>Discovery that finds a port\<close>





subsection \<open>The administration interface: \<open>POST /proxy-admin/add\<close>\<close>

lemma add_request_rejects:
  "(b = Not_json s \<or> b = Json_text JNull \<longrightarrow>
      add_request r1 r2 b w = (bad_request err_format, w)) \<and>
   (b = Json_text v \<and> v \<noteq> JNull \<and>
    (field v ''hostname'' = None \<or> field v ''hostname'' = Some hn \<and> \<not> truthy hn \<or>
     field v ''target'' = None \<or> field v ''target'' = Some tg \<and> \<not> truthy tg) \<longrightarrow>
      add_request r1 r2 b w = (bad_request err_missing, w))"
  by (auto simp: add_request_def split: option.splits)

lemma add_request_accepts:
  assumes "b = Json_text v" "v \<noteq> JNull"
    and "field v ''hostname'' = Some hn" "truthy hn"
    and "field v ''target'' = Some tg" "truthy tg"
    and "nm = (case field v ''name'' of Some n \<Rightarrow> if truthy n then n else hn | None \<Rightarrow> hn)"
  shows "add_request r1 r2 b w =
           (if r2 = Done
            then Respond 200 json_ct
                   (Json_out (JObj [(''success'', JBool True), (''message'', JStr msg_added)]))
            else Respond 500 json_ct (Json_out (JObj [(''error'', JStr err_save)])),
            snd (addIssuer r1 r2 hn tg nm w))"
proof -
  have "fst (addIssuer r1 r2 hn tg nm w) = (r2 = Done)"
    by (cases r2) (simp_all add: addIssuer_def saveConfig_def writeFileSync_def split_beta Let_def)
  then show ?thesis
    using assms by (simp add: add_request_def split_beta Let_def)
qed


text \<open>
  Claim C7 does not hold of the code for the hostname \<open>__proto__\<close>. The body
  \<open>{"hostname":"__proto__","target":"https://localhost:6000"}\<close> has both required
  fields non-empty and the write completes, so the answer is the success
  acknowledgment; but the assignment \<open>config["__proto__"] = {...}\<close> replaces the
  prototype of the object and creates no property, so nothing is added to the table:
  the file is rewritten with the content it had.
\<close>

theorem add_proto_acknowledged_not_stored:
  "handleRequest Done Done Done (\<lambda>q. Probe_error)
     \<lparr>host = Some ''localhost'', url = ''/proxy-admin/add'', http_method = ''POST'',
      body = Json_text (JObj [(''hostname'', JStr ''__proto__''),
                              (''target'', JStr ''https://localhost:6000'')])\<rparr>
     \<lparr>disk = Saved DEFAULT_ISSUERS, defaults = initial_defaults\<rparr> =
   (Respond 200 (Some ''application/json'')
      (Json_out (JObj [(''success'', JBool True), (''message'', JStr msg_added)])),
    \<lparr>disk = Saved DEFAULT_ISSUERS, defaults = initial_defaults\<rparr>)"
  by (simp add: handleRequest_def before_colon_def starts_with_def handleAdminRequest_def
      add_request_def addIssuer_def saveConfig_def writeFileSync_def loadConfig_def
      read_config_def assign_entry_def deref_def js_set_def DEFAULT_ISSUERS_def json_ct_def)

subsection \<open>Discovery that finds nothing\<close>

lemma probe_ports_exhausted:
  "\<forall>q \<in> set ps. probe q \<noteq> Status 200 \<Longrightarrow>
     probe_ports r1 r2 probe hostname req ps w = (discovery_failed hostname, ps, w)"
  by (induction ps) simp_all

text \<open>
  Claim C6. When no candidate port answers the probe with status 200, \<open>discoverIssuer\<close>
  answers 404 with a JSON body that has the fields \<open>error\<close> (the discovery-failure
  text), \<open>message\<close> and \<open>admin_url\<close>; every port of the list has been probed once, in
  order, and the state (configuration file and in-memory defaults) is the one the
  attempt started in.
\<close>

theorem discovery_exhausted:
  "\<forall>q \<in> set ports. probe q \<noteq> Status 200 \<Longrightarrow>
     discoverIssuer r1 r2 probe hostname req w =
       (Respond 404 (Some ''application/json'')
          (Json_out (JObj [(''error'', JStr err_notfound),
                           (''message'', JStr (dmsg_pre @ hostname @ dmsg_post)),
                           (''admin_url'', JStr ''https://localhost:8080/proxy-admin'')])),
        ports, w)"
  by (simp add: discoverIssuer_def probe_ports_exhausted discovery_failed_def json_ct_def
      admin_url_def)

theorem discovery_exhausted_witness:
  "discoverIssuer Done Done (\<lambda>p. Status 503) ''unknown.example''
     \<lparr>host = Some ''unknown.example'', url = well_known, http_method = ''GET'', body = Not_json []\<rparr>
     \<lparr>disk = Saved DEFAULT_ISSUERS, defaults = initial_defaults\<rparr> =
       (Respond 404 (Some ''application/json'')
          (Json_out (JObj [(''error'', JStr err_notfound),
                           (''message'', JStr (dmsg_pre @ ''unknown.example'' @ dmsg_post)),
                           (''admin_url'', JStr ''https://localhost:8080/proxy-admin'')])),
        ports, \<lparr>disk = Saved DEFAULT_ISSUERS, defaults = initial_defaults\<rparr>)"
  using discovery_exhausted [of "\<lambda>p. Status 503" Done Done "''unknown.example''"
      "\<lparr>host = Some ''unknown.example'', url = well_known, http_method = ''GET'', body = Not_json []\<rparr>"
      "\<lparr>disk = Saved DEFAULT_ISSUERS, defaults = initial_defaults\<rparr>"]
  by simp

subsection \<open>A request without a Host header\<close>

text \<open>
  Claim C10. \<open>handleRequest\<close> reads \<open>req.headers.host.split(':')\<close> first. For a request
  without a \<open>Host\<close> header this throws a \<open>TypeError\<close> before anything else happens: no
  response is produced and the state is untouched.
\<close>

theorem missing_host_throws:
  "host req = None \<Longrightarrow> handleRequest r0 r1 r2 probe req w = (Uncaught_TypeError, w)"
  by (simp add: handleRequest_def)

theorem missing_host_throws_witness:
  "host \<lparr>host = None, url = ''/'', http_method = ''GET'', body = Not_json []\<rparr> = None \<and>
   handleRequest Done Done Done (\<lambda>p. Probe_timeout)
     \<lparr>host = None, url = ''/'', http_method = ''GET'', body = Not_json []\<rparr>
     \<lparr>disk = Absent, defaults = initial_defaults\<rparr>
   = (Uncaught_TypeError, \<lparr>disk = Absent, defaults = initial_defaults\<rparr>)"
  using missing_host_throws [of "\<lparr>host = None, url = ''/'', http_method = ''GET'', body = Not_json []\<rparr>"
      Done Done Done "\<lambda>p. Probe_timeout" "\<lparr>disk = Absent, defaults = initial_defaults\<rparr>"]
  by simp

end
